theory Spec2Isabelle
  imports Main
begin

section \<open>Data model\<close>

text \<open>
  The script \<^verbatim>\<open>03_finalize_fbref.py\<close> threads one pandas table through a fixed
  sequence of transformations.  Python strings are sequences of code points, and the
  script removes characters beyond Latin-1 (U+2009, U+2014), so cell text is a list of
  code points.  Column labels are plain ASCII and stay \<open>string\<close>.
\<close>

type_synonym ustring = "nat list"

definition ustr :: "string \<Rightarrow> ustring" where
  "ustr s = map of_char s"

text \<open>
  One cell of the table.  \<open>NA\<close> is a missing value (NaN, None or \<open>pd.NA\<close>: everything
  \<open>isna\<close> answers True for), \<open>Str\<close> a Python string, \<open>Num\<close> a numeric value that is a
  whole number and \<open>Flt\<close> a numeric value that is not a whole number, identified by the
  literal it was read from (no floating-point arithmetic is performed on it).  Boolean
  cells are not represented.
\<close>

datatype cell = NA | Str ustring | Num int | Flt ustring

type_synonym series = "cell list"
type_synonym row = "string \<Rightarrow> cell"

text \<open>
  A table is its ordered column labels and its rows in positional order; a row gives
  the cell under each label.  Only the labels listed in \<open>columns\<close> exist; what a row
  function answers elsewhere is never looked at.  The row index labels of pandas are
  left out: every series the script combines is taken from the same table, so the
  alignment on labels is the positional one, and the output is written without index.
\<close>

record frame =
  columns :: "string list"
  rows :: "row list"

datatype error =
    AttributeError
  | TypeError
  | KeyError string
  | OSError

definition isna :: "cell \<Rightarrow> bool" where
  "isna c = (c = NA)"

definition get :: "frame \<Rightarrow> string \<Rightarrow> series option" where
  \<comment> \<open>\<^verbatim>\<open>df.get(label)\<close>: the column, or None when the label is absent.\<close>
  "get df c = (if c \<in> set (columns df) then Some (map (\<lambda>r. r c) (rows df)) else None)"

definition add_label :: "string \<Rightarrow> string list \<Rightarrow> string list" where
  "add_label c cs = (if c \<in> set cs then cs else cs @ [c])"

definition setitem :: "frame \<Rightarrow> string \<Rightarrow> series \<Rightarrow> frame" where
  \<comment> \<open>\<^verbatim>\<open>df[label] = series\<close>: replaces the column in place, or appends it as the last one.\<close>
  "setitem df c s =
     \<lparr> columns = add_label c (columns df),
       rows = map2 (\<lambda>r v. r(c := v)) (rows df) s \<rparr>"

definition drop :: "frame \<Rightarrow> string list \<Rightarrow> frame" where
  \<comment> \<open>\<^verbatim>\<open>df.drop(columns=labels)\<close> for labels that are all present: the labels leave the
      table; the cells under them are no longer part of it.\<close>
  "drop df cs = df\<lparr> columns := filter (\<lambda>c. c \<notin> set cs) (columns df) \<rparr>"

definition cells :: "string list \<Rightarrow> row \<Rightarrow> cell list" where
  \<comment> \<open>The cells of a row under the given labels, in order.\<close>
  "cells cs r = map r cs"

section \<open>Helpers: structural\<close>

fun combine_first :: "series option \<Rightarrow> series option \<Rightarrow> error + series option" where
  \<comment> \<open>\<^verbatim>\<open>a.combine_first(b)\<close>: a's value where it is not missing, else b's.  A None on
      either side has no such method, or no index to align with.\<close>
  "combine_first (Some a) (Some b) =
     Inr (Some (map2 (\<lambda>x y. if isna x then y else x) a b))"
| "combine_first _ _ = Inl AttributeError"

fun reduce :: "('a \<Rightarrow> 'a \<Rightarrow> error + 'a) \<Rightarrow> 'a \<Rightarrow> 'a list \<Rightarrow> error + 'a" where
  "reduce f a [] = Inr a"
| "reduce f a (b # bs) = (case f a b of Inl e \<Rightarrow> Inl e | Inr a' \<Rightarrow> reduce f a' bs)"

fun coalesce :: "series option list \<Rightarrow> error + series option" where
  "coalesce [] = Inl TypeError"
| "coalesce (s # ss) = reduce combine_first s ss"

definition assign_coalesced :: "string \<Rightarrow> string \<Rightarrow> string \<Rightarrow> frame \<Rightarrow> error + frame" where
  \<comment> \<open>One line of \<^verbatim>\<open>build_canonical\<close>: \<^verbatim>\<open>df[f] = coalesce(df.get(std), df.get(misc))\<close>.
      Assigning None would broadcast a missing value to every row.\<close>
  "assign_coalesced f std misc df =
     (case coalesce [get df std, get df misc] of
        Inl e \<Rightarrow> Inl e
      | Inr None \<Rightarrow> Inr (setitem df f (map (\<lambda>_. NA) (rows df)))
      | Inr (Some s) \<Rightarrow> Inr (setitem df f s))"

definition bind :: "error + 'a \<Rightarrow> ('a \<Rightarrow> error + 'b) \<Rightarrow> error + 'b" where
  "bind m k = (case m of Inl e \<Rightarrow> Inl e | Inr x \<Rightarrow> k x)"

definition build_canonical :: "frame \<Rightarrow> error + frame" where
  "build_canonical df =
     bind (assign_coalesced ''nationality'' ''nationality_standard'' ''nationality_misc'' df) (\<lambda>df.
     bind (assign_coalesced ''country_code'' ''country_code_standard'' ''country_code_misc'' df) (\<lambda>df.
     bind (assign_coalesced ''position'' ''position_standard'' ''position_misc'' df) (\<lambda>df.
     bind (assign_coalesced ''age'' ''age_standard'' ''age_misc'' df) (\<lambda>df.
     assign_coalesced ''birth_year'' ''birth_year_standard'' ''birth_year_misc'' df))))"


definition drop_redundant_source_cols :: "frame \<Rightarrow> frame" where
  "drop_redundant_source_cols df =
     (let to_drop =
        [''nationality_standard'', ''country_code_standard'', ''position_standard'',
         ''age_standard'', ''birth_year_standard'',
         ''nationality_misc'', ''country_code_misc'', ''position_misc'', ''age_misc'',
         ''birth_year_misc'']
      in drop df (filter (\<lambda>c. c \<in> set (columns df)) to_drop))"

definition variant_columns :: "string list" where
  "variant_columns =
     [''nationality_standard'', ''country_code_standard'', ''position_standard'',
      ''age_standard'', ''birth_year_standard'',
      ''nationality_misc'', ''country_code_misc'', ''position_misc'', ''age_misc'',
      ''birth_year_misc'']"

section \<open>Library behaviour taken as a parameter\<close>

text \<open>
  The script delegates to pandas.  What pandas does on the inputs the script's own
  logic is about is written out below; the corners of the library that the script does
  not steer are the fields of one record, and every statement holds for all values of
  them.
\<close>

datatype parsed = NotNumeric | Whole int | Fraction

record lib =
  na_token :: "ustring \<Rightarrow> bool"
    \<comment> \<open>the non-empty texts \<^verbatim>\<open>read_csv\<close> reads as missing (\<^verbatim>\<open>NA\<close>, \<^verbatim>\<open>NaN\<close>, ...)\<close>
  csv_numeric :: "ustring \<Rightarrow> parsed"
    \<comment> \<open>how \<^verbatim>\<open>read_csv\<close> reads a field that is not a plain integer literal\<close>
  to_numeric_other :: "ustring \<Rightarrow> parsed"
    \<comment> \<open>how \<^verbatim>\<open>pd.to_numeric\<close> reads a non-empty text that is not a plain integer literal\<close>
  num_str :: "cell \<Rightarrow> ustring"
    \<comment> \<open>the text \<^verbatim>\<open>astype("string")\<close> gives a numeric cell\<close>
  argsort_desc :: "int list \<Rightarrow> nat list"
    \<comment> \<open>the positions in the order \<^verbatim>\<open>sort_values(ascending=False)\<close> with the default
        \<^verbatim>\<open>kind\<close> puts a column of counts\<close>

section \<open>Helpers: typing / cleaning\<close>

definition is_digit :: "nat \<Rightarrow> bool" where
  "is_digit c = (48 \<le> c \<and> c \<le> 57)"

fun digits_value :: "nat \<Rightarrow> ustring \<Rightarrow> nat" where
  "digits_value acc [] = acc"
| "digits_value acc (c # cs) = digits_value (10 * acc + (c - 48)) cs"

definition int_literal :: "ustring \<Rightarrow> int option" where
  \<comment> \<open>A plain integer literal in the 64-bit signed range: digits, or a minus sign and
      digits.\<close>
  "int_literal s =
     (case s of
        [] \<Rightarrow> None
      | c # cs \<Rightarrow>
          if c = 45 then
            (if cs \<noteq> [] \<and> list_all is_digit cs \<and> digits_value 0 cs \<le> 2 ^ 63
             then Some (- int (digits_value 0 cs)) else None)
          else
            (if list_all is_digit s \<and> digits_value 0 s < 2 ^ 63
             then Some (int (digits_value 0 s)) else None))"

definition numeric_cell :: "ustring \<Rightarrow> parsed \<Rightarrow> cell" where
  \<comment> \<open>With \<^verbatim>\<open>errors="coerce"\<close>, a text that does not parse becomes missing.\<close>
  "numeric_cell s p = (case p of NotNumeric \<Rightarrow> NA | Whole n \<Rightarrow> Num n | Fraction \<Rightarrow> Flt s)"

definition to_numeric_str :: "lib \<Rightarrow> ustring \<Rightarrow> cell" where
  "to_numeric_str L s =
     (if s = [] then NA
      else case int_literal s of
             Some n \<Rightarrow> Num n
           | None \<Rightarrow> numeric_cell s (to_numeric_other L s))"

fun to_numeric :: "lib \<Rightarrow> cell \<Rightarrow> cell" where
  \<comment> \<open>\<^verbatim>\<open>pd.to_numeric(s, errors="coerce")\<close>, cell by cell.\<close>
  "to_numeric L NA = NA"
| "to_numeric L (Str s) = to_numeric_str L s"
| "to_numeric L (Num n) = Num n"
| "to_numeric L (Flt s) = Flt s"

fun astype_string :: "lib \<Rightarrow> cell \<Rightarrow> cell" where
  "astype_string L NA = NA"
| "astype_string L (Str s) = Str s"
| "astype_string L c = Str (num_str L c)"

definition is_space :: "nat \<Rightarrow> bool" where
  \<comment> \<open>The code points \<^verbatim>\<open>str.isspace\<close> accepts; \<^verbatim>\<open>str.strip()\<close> removes these.\<close>
  "is_space c =
     ((9 \<le> c \<and> c \<le> 13) \<or> (28 \<le> c \<and> c \<le> 32) \<or> c = 133 \<or> c = 160 \<or> c = 5760 \<or>
      (8192 \<le> c \<and> c \<le> 8202) \<or> c = 8232 \<or> c = 8233 \<or> c = 8239 \<or> c = 8287 \<or> c = 12288)"

definition strip :: "ustring \<Rightarrow> ustring" where
  "strip s = rev (dropWhile is_space (rev (dropWhile is_space s)))"

fun str_map :: "(ustring \<Rightarrow> ustring) \<Rightarrow> cell \<Rightarrow> cell" where
  \<comment> \<open>A \<^verbatim>\<open>.str\<close> method on a string column: missing cells stay missing.\<close>
  "str_map f (Str s) = Str (f s)"
| "str_map f c = c"

definition replace_empty :: "cell \<Rightarrow> cell" where
  \<comment> \<open>\<^verbatim>\<open>.replace({"": pd.NA})\<close>\<close>
  "replace_empty c = (if c = Str [] then NA else c)"

definition map_column :: "(cell \<Rightarrow> cell) \<Rightarrow> string \<Rightarrow> frame \<Rightarrow> frame" where
  \<comment> \<open>\<^verbatim>\<open>df[c] = f(df[c])\<close> for a cell-wise \<open>f\<close> and a label that is present.\<close>
  "map_column f c df = df\<lparr> rows := map (\<lambda>r. r(c := f (r c))) (rows df) \<rparr>"

definition clean_strings :: "lib \<Rightarrow> frame \<Rightarrow> string list \<Rightarrow> frame" where
  "clean_strings L df cols =
     fold (map_column (replace_empty \<circ> str_map strip \<circ> astype_string L))
          (filter (\<lambda>c. c \<in> set (columns df)) cols) df"

definition is_object :: "series \<Rightarrow> bool" where
  \<comment> \<open>\<^verbatim>\<open>s.dtype == "object"\<close>: the column holds Python strings.  A column
      \<^verbatim>\<open>read_csv\<close> produced has this dtype exactly when some cell is a string.\<close>
  "is_object s = list_ex (\<lambda>c. case c of Str _ \<Rightarrow> True | _ \<Rightarrow> False) s"

definition sanitize :: "ustring \<Rightarrow> ustring" where
  \<comment> \<open>The four \<^verbatim>\<open>.str.replace\<close> calls: U+2009 and U+00A0, the comma, U+2014, the
      hyphen-minus.\<close>
  "sanitize s =
     filter (\<lambda>c. c \<noteq> 45)
       (filter (\<lambda>c. c \<noteq> 8212)
         (filter (\<lambda>c. c \<noteq> 44)
           (filter (\<lambda>c. c \<noteq> 8201 \<and> c \<noteq> 160) s)))"

definition coerce_cell :: "lib \<Rightarrow> bool \<Rightarrow> cell \<Rightarrow> cell" where
  "coerce_cell L obj c =
     to_numeric L (if obj then str_map sanitize (astype_string L c) else c)"

datatype message =
    CoerceFailed string
  | ParquetSkipped
  | Finalized

definition coerce_column :: "lib \<Rightarrow> string \<Rightarrow> frame \<times> message list \<Rightarrow> frame \<times> message list" where
  \<comment> \<open>One pass of the loop of \<^verbatim>\<open>coerce_nullable_ints\<close>.  \<^verbatim>\<open>astype("Int64")\<close> raises
      when a value is not a whole number; the handler prints and keeps the column as
      floats, which leaves every value as it is.\<close>
  "coerce_column L c st =
     (let df = fst st;
          obj = is_object (map (\<lambda>r. r c) (rows df));
          df' = map_column (coerce_cell L obj) c df;
          failed = list_ex (\<lambda>r. case r c of Flt _ \<Rightarrow> True | _ \<Rightarrow> False) (rows df')
      in (df', snd st @ (if failed then [CoerceFailed c] else [])))"

definition coerce_nullable_ints :: "lib \<Rightarrow> frame \<Rightarrow> string list \<Rightarrow> frame \<times> message list" where
  "coerce_nullable_ints L df cols =
     fold (coerce_column L) (filter (\<lambda>c. c \<in> set (columns df)) cols) (df, [])"

definition coerce_floats :: "lib \<Rightarrow> frame \<Rightarrow> string list \<Rightarrow> frame" where
  "coerce_floats L df cols =
     fold (map_column (to_numeric L)) (filter (\<lambda>c. c \<in> set (columns df)) cols) df"

section \<open>Deduplication\<close>

definition notna_sum :: "frame \<Rightarrow> row \<Rightarrow> int" where
  \<comment> \<open>\<^verbatim>\<open>df.notna().sum(axis=1)\<close> for one row: the count of non-missing cells over all
      columns of the table.\<close>
  "notna_sum df r = int (length (filter (\<lambda>c. \<not> isna (r c)) (columns df)))"

fun count_of :: "cell \<Rightarrow> int" where
  "count_of (Num n) = n"
| "count_of _ = 0"

definition sort_values_desc :: "lib \<Rightarrow> string \<Rightarrow> frame \<Rightarrow> frame" where
  \<comment> \<open>\<^verbatim>\<open>df.sort_values(c, ascending=False)\<close> on a column of counts: the rows taken in
      the order the library's sort gives.\<close>
  "sort_values_desc L c df =
     df\<lparr> rows := map (\<lambda>i. rows df ! i) (argsort_desc L (map (\<lambda>r. count_of (r c)) (rows df))) \<rparr>"

fun keep_first :: "('a \<Rightarrow> 'k) \<Rightarrow> 'k list \<Rightarrow> 'a list \<Rightarrow> 'a list" where
  \<comment> \<open>\<^verbatim>\<open>keep="first"\<close>: a row stays unless an earlier row had its key.  Missing values
      compare equal to each other here.\<close>
  "keep_first key seen [] = []"
| "keep_first key seen (r # rs) =
     (if key r \<in> set seen then keep_first key seen rs
      else r # keep_first key (key r # seen) rs)"

definition drop_duplicates :: "frame \<Rightarrow> string list \<Rightarrow> error + frame" where
  "drop_duplicates df ks =
     (case filter (\<lambda>c. c \<notin> set (columns df)) ks of
        c # _ \<Rightarrow> Inl (KeyError c)
      | [] \<Rightarrow> Inr (df\<lparr> rows := keep_first (cells ks) [] (rows df) \<rparr>))"

definition key_labels :: "string list" where
  "key_labels = [''player'', ''team'', ''league'', ''season'']"

definition dedupe_rows :: "lib \<Rightarrow> frame \<Rightarrow> error + frame" where
  "dedupe_rows L df =
     (let df1 = setitem df ''_nnz'' (map (\<lambda>r. Num (notna_sum df r)) (rows df));
          df2 = sort_values_desc L ''_nnz'' df1
      in bind (drop_duplicates df2 key_labels) (\<lambda>df3. Inr (drop df3 [''_nnz''])))"

section \<open>Load\<close>

text \<open>
  The input file after tokenisation: the header labels (as pandas names the columns)
  and, for every record, the text of the field under each label; a field left empty has
  the empty text.
\<close>

record csv_text =
  header :: "string list"
  records :: "(string \<Rightarrow> ustring) list"

definition field_missing :: "lib \<Rightarrow> ustring \<Rightarrow> bool" where
  \<comment> \<open>With the default \<^verbatim>\<open>na_values\<close>, an empty field is read as missing; a plain
      integer literal is never one of the markers.\<close>
  "field_missing L s = (s = [] \<or> (int_literal s = None \<and> na_token L s))"

definition csv_parse :: "lib \<Rightarrow> ustring \<Rightarrow> parsed" where
  "csv_parse L s = (case int_literal s of Some n \<Rightarrow> Whole n | None \<Rightarrow> csv_numeric L s)"

definition numeric_column :: "lib \<Rightarrow> csv_text \<Rightarrow> string \<Rightarrow> bool" where
  \<comment> \<open>A column is read as numbers when every field that is not missing is one.\<close>
  "numeric_column L t c =
     list_all (\<lambda>r. field_missing L (r c) \<or> csv_parse L (r c) \<noteq> NotNumeric) (records t)"

definition read_cell :: "lib \<Rightarrow> bool \<Rightarrow> ustring \<Rightarrow> cell" where
  "read_cell L numeric s =
     (if field_missing L s then NA
      else if numeric then numeric_cell s (csv_parse L s)
      else Str s)"

definition read_csv :: "lib \<Rightarrow> csv_text \<Rightarrow> frame" where
  "read_csv L t =
     \<lparr> columns = header t,
       rows = map (\<lambda>r c. read_cell L (numeric_column L t c) (r c)) (records t) \<rparr>"

section \<open>Main flow\<close>

definition CURRENT_SEASON :: ustring where
  "CURRENT_SEASON = ustr ''2024-2025''"

definition ne_mask :: "string \<Rightarrow> ustring \<Rightarrow> row \<Rightarrow> bool option" where
  \<comment> \<open>\<^verbatim>\<open>df[c] != text\<close> on a column of dtype \<^verbatim>\<open>string\<close>: the comparison with a missing
      cell is itself missing.\<close>
  "ne_mask c text r = (if isna (r c) then None else Some (r c \<noteq> Str text))"

definition getitem_mask :: "frame \<Rightarrow> string \<Rightarrow> ustring \<Rightarrow> error + frame" where
  \<comment> \<open>\<^verbatim>\<open>df[df[c] != text]\<close>: boolean indexing takes a missing mask entry as False.\<close>
  "getitem_mask df c text =
     (if c \<notin> set (columns df) then Inl (KeyError c)
      else Inr (df\<lparr> rows := filter (\<lambda>r. ne_mask c text r = Some True) (rows df) \<rparr>))"

type_synonym table = "string list \<times> cell list list"

definition table_of :: "frame \<Rightarrow> table" where
  \<comment> \<open>What a writer is handed: the labels and, row by row, the cells under them.\<close>
  "table_of df = (columns df, map (cells (columns df)) (rows df))"

record env =
  input_csv :: "error + csv_text"
    \<comment> \<open>the tokenised file at \<^verbatim>\<open>INPUT_CSV\<close>, or what reading it raises\<close>
  mkdir_error :: "error option"
  to_csv_error :: "error option"
  to_parquet_error :: "error option"

record run =
  csv_file :: "table option"
  parquet_file :: "table option"
  stdout :: "message list"
  raised :: "error option"

definition abort :: "message list \<Rightarrow> error \<Rightarrow> run" where
  "abort msgs e = \<lparr> csv_file = None, parquet_file = None, stdout = msgs, raised = Some e \<rparr>"

definition canon_str :: "string list" where
  "canon_str = [''player'', ''team'', ''league'', ''season'', ''nationality'', ''country_code'',
     ''position'']"

definition int_cols :: "string list" where
  "int_cols = [''age'', ''birth_year'', ''matches_played'', ''starts'', ''minutes'',
     ''goals'', ''assists'', ''goals_and_assists'', ''non_penalty_goals'',
     ''pens_scored'', ''pens_attempted'', ''fouls_drawn'', ''offsides'', ''pkwon'',
     ''progressive_carries'', ''prgp'']"

definition float_cols :: "string list" where
  "float_cols = [''goals_per90'', ''assists_per90'', ''goals_and_assists_per90'',
     ''non_penalty_goals_per90'', ''xg_expected_goals'', ''npxg_non_penalty_xg'',
     ''xag_expected_assisted_goals'', ''npxg+xag'', ''non_penalty_goals_and_assists'']"

definition prepare :: "lib \<Rightarrow> frame \<Rightarrow> error + frame \<times> message list" where
  \<comment> \<open>Steps 2 to 4 of \<^verbatim>\<open>main\<close>.\<close>
  "prepare L df =
     bind (build_canonical df) (\<lambda>df.
       let df = drop_redundant_source_cols df;
           df = clean_strings L df canon_str;
           st = coerce_nullable_ints L df int_cols
       in Inr (coerce_floats L (fst st) float_cols, snd st))"

definition save :: "env \<Rightarrow> message list \<Rightarrow> frame \<Rightarrow> run" where
  \<comment> \<open>Step 8 of \<^verbatim>\<open>main\<close>: only the Parquet write sits in a \<^verbatim>\<open>try\<close>.\<close>
  "save e msgs historical =
     (case mkdir_error e of
        Some err \<Rightarrow> abort msgs err
      | None \<Rightarrow>
         (case to_csv_error e of
            Some err \<Rightarrow> abort msgs err
          | None \<Rightarrow>
             (case to_parquet_error e of
                Some err \<Rightarrow>
                  \<lparr> csv_file = Some (table_of historical), parquet_file = None,
                    stdout = msgs @ [ParquetSkipped, Finalized], raised = None \<rparr>
              | None \<Rightarrow>
                  \<lparr> csv_file = Some (table_of historical),
                    parquet_file = Some (table_of historical),
                    stdout = msgs @ [Finalized], raised = None \<rparr>)))"

definition main :: "lib \<Rightarrow> env \<Rightarrow> run" where
  "main L e =
     (case input_csv e of
        Inl err \<Rightarrow> abort [] err
      | Inr text \<Rightarrow>
         (case prepare L (read_csv L text) of
            Inl err \<Rightarrow> abort [] err
          | Inr (df, msgs) \<Rightarrow>
             (case bind (dedupe_rows L df) (\<lambda>df. getitem_mask df ''season'' CURRENT_SEASON) of
                Inl err \<Rightarrow> abort msgs err
              | Inr historical \<Rightarrow> save e msgs historical)))"

section \<open>Notions used in the statements\<close>

definition pick :: "string \<Rightarrow> string \<Rightarrow> string \<Rightarrow> row \<Rightarrow> row" where
  "pick f std misc r = r(f := if isna (r std) then r misc else r std)"

definition canonical_row :: "row \<Rightarrow> row" where
  "canonical_row r =
     pick ''birth_year'' ''birth_year_standard'' ''birth_year_misc''
       (pick ''age'' ''age_standard'' ''age_misc''
         (pick ''position'' ''position_standard'' ''position_misc''
           (pick ''country_code'' ''country_code_standard'' ''country_code_misc''
             (pick ''nationality'' ''nationality_standard'' ''nationality_misc'' r))))"

definition canonical_columns :: "string list \<Rightarrow> string list" where
  "canonical_columns cs =
     add_label ''birth_year'' (add_label ''age'' (add_label ''position''
       (add_label ''country_code'' (add_label ''nationality'' cs))))"

definition row_of :: "(string \<times> cell) list \<Rightarrow> row" where
  "row_of kvs = (\<lambda>c. case map_of kvs c of Some v \<Rightarrow> v | None \<Rightarrow> NA)"



definition stable_desc :: "int list \<Rightarrow> nat list" where
  "stable_desc xs = sort_key (\<lambda>i. - (xs ! i)) [0..<length xs]"

function decimal :: "nat \<Rightarrow> ustring" where
  "decimal n = (if n < 10 then [48 + n] else decimal (n div 10) @ [48 + n mod 10])"
  by pat_completeness auto
termination
  by (relation "measure id") auto

declare decimal.simps [simp del]

fun py_str :: "cell \<Rightarrow> ustring" where
  "py_str (Num n) = (if n < 0 then 45 # decimal (nat (- n)) else decimal (nat n))"
| "py_str (Flt s) = s"
| "py_str (Str s) = s"
| "py_str NA = []"

definition L0 :: lib where
  "L0 = \<lparr> na_token = (\<lambda>_. False), csv_numeric = (\<lambda>_. NotNumeric),
          to_numeric_other = (\<lambda>_. NotNumeric), num_str = py_str,
          argsort_desc = stable_desc \<rparr>"



definition order_of :: "lib \<Rightarrow> frame \<Rightarrow> nat list" where
  "order_of L df = argsort_desc L (map (notna_sum df) (rows df))"


definition counted :: "frame \<Rightarrow> row list" where
  "counted df = map (\<lambda>r. r(''_nnz'' := Num (notna_sum df r))) (rows df)"

definition deduped :: "lib \<Rightarrow> frame \<Rightarrow> frame" where
  "deduped L df =
     \<lparr> columns = filter (\<lambda>c. c \<noteq> ''_nnz'') (columns df),
       rows = keep_first (cells key_labels) [] (map (\<lambda>i. counted df ! i) (order_of L df)) \<rparr>"







definition player_row :: "string \<Rightarrow> string \<Rightarrow> string \<Rightarrow> cell \<Rightarrow> cell \<Rightarrow> row" where
  "player_row p t s g a =
     row_of [(''player'', Str (ustr p)), (''team'', Str (ustr t)), (''league'', Str (ustr ''LeagueX'')),
             (''season'', Str (ustr s)), (''goals'', g), (''assists'', a)]"

definition ex_dups :: frame where
  "ex_dups =
     \<lparr> columns = [''player'', ''team'', ''league'', ''season'', ''goals'', ''assists''],
       rows = [player_row ''John Doe'' ''TeamA'' ''2022-2023'' NA NA,
               player_row ''John Doe'' ''TeamA'' ''2022-2023'' (Num 8) (Num 3),
               player_row ''Jane Roe'' ''TeamB'' ''2022-2023'' (Num 1) NA,
               player_row ''Jane Roe'' ''TeamB'' ''2022-2023'' (Num 2) NA] \<rparr>"

definition prepared :: "lib \<Rightarrow> frame \<Rightarrow> frame \<times> message list" where
  "prepared L df0 =
     (let df = \<lparr> columns = canonical_columns (columns df0), rows = map canonical_row (rows df0) \<rparr>;
          df = drop_redundant_source_cols df;
          df = clean_strings L df canon_str;
          st = coerce_nullable_ints L df int_cols
      in (coerce_floats L (fst st) float_cols, snd st))"

section \<open>Canonical identity fields\<close>

lemma map2_setitem:
  "map2 (\<lambda>r v. r(c := v)) rs (map2 h (map a rs) (map b rs)) = map (\<lambda>r. r(c := h (a r) (b r))) rs"
  by (induction rs) auto

lemma assign_coalesced_eq:
  "assign_coalesced f std misc df =
     (if std \<in> set (columns df) \<and> misc \<in> set (columns df)
      then Inr \<lparr> columns = add_label f (columns df), rows = map (pick f std misc) (rows df) \<rparr>
      else Inl AttributeError)"
  by (auto simp: assign_coalesced_def get_def setitem_def map2_setitem pick_def)

lemma bind_Inr: "bind m k = Inr y \<longleftrightarrow> (\<exists>x. m = Inr x \<and> k x = Inr y)"
  by (cases m) (auto simp: bind_def)

lemma bind_simps [simp]: "bind (Inl e) k = Inl e" "bind (Inr x) k = k x"
  by (simp_all add: bind_def)

lemma set_add_label [simp]: "set (add_label c cs) = insert c (set cs)"
  by (auto simp: add_label_def)

lemma build_canonical_eq:
  "build_canonical df =
     (if set variant_columns \<subseteq> set (columns df)
      then Inr \<lparr> columns = canonical_columns (columns df), rows = map canonical_row (rows df) \<rparr>
      else Inl AttributeError)"
  unfolding build_canonical_def assign_coalesced_eq variant_columns_def
  by (simp add: canonical_columns_def canonical_row_def[abs_def] comp_def)





section \<open>Integer coercion\<close>

lemma ustr_ex: "ustr ''1,234'' = [49, 44, 50, 51, 52]" "ustr ''-'' = [45]" "ustr ''abc'' = [97,98,99]"
  by (simp_all add: ustr_def)



lemma rows_map_column [simp]:
  "rows (map_column f c df) = map (\<lambda>r. r(c := f (r c))) (rows df)"
  "columns (map_column f c df) = columns df"
  by (simp_all add: map_column_def)

lemma coerce_column_fst:
  "fst (coerce_column L c st) =
     map_column (coerce_cell L (is_object (map (\<lambda>r. r c) (rows (fst st))))) c (fst st)"
  by (simp add: coerce_column_def Let_def)

lemma fold_coerce_other:
  "c \<notin> set cs \<Longrightarrow>
   map (\<lambda>r. r c) (rows (fst (fold (coerce_column L) cs st))) = map (\<lambda>r. r c) (rows (fst st))"
proof (induction cs arbitrary: st)
  case Nil
  then show ?case by simp
next
  case (Cons a cs)
  then have "map (\<lambda>r. r c) (rows (fst (fold (coerce_column L) cs (coerce_column L a st)))) =
             map (\<lambda>r. r c) (rows (fst (coerce_column L a st)))"
    by simp
  also have "\<dots> = map (\<lambda>r. r c) (rows (fst st))"
    using Cons.prems by (simp add: coerce_column_fst comp_def)
  finally show ?case by simp
qed

lemma fold_coerce_at:
  "distinct cs \<Longrightarrow> c \<in> set cs \<Longrightarrow>
   map (\<lambda>r. r c) (rows (fst (fold (coerce_column L) cs st))) =
     map (coerce_cell L (is_object (map (\<lambda>r. r c) (rows (fst st))))) (map (\<lambda>r. r c) (rows (fst st)))"
proof (induction cs arbitrary: st)
  case Nil
  then show ?case by simp
next
  case (Cons a cs)
  show ?case
  proof (cases "a = c")
    case True
    with Cons.prems have "c \<notin> set cs" by simp
    from fold_coerce_other[OF this] show ?thesis
      using True by (simp add: coerce_column_fst comp_def)
  next
    case False
    with Cons.prems have d: "distinct cs" and m: "c \<in> set cs" by auto
    have same: "map (\<lambda>r. r c) (rows (fst (coerce_column L a st))) = map (\<lambda>r. r c) (rows (fst st))"
      using False by (simp add: coerce_column_fst comp_def)
    show ?thesis
      using Cons.IH[OF d m, of "coerce_column L a st"] by (simp add: same)
  qed
qed

lemma length_fold_coerce:
  "length (rows (fst (fold (coerce_column L) cs st))) = length (rows (fst st))"
  by (induction cs arbitrary: st) (simp_all add: coerce_column_fst)

lemma distinct_int_cols: "distinct int_cols"
  by (simp add: int_cols_def)

lemma coerce_nullable_ints_cell:
  assumes "distinct cols" "c \<in> set cols" "c \<in> set (columns df)" "i < length (rows df)"
  shows "(rows (fst (coerce_nullable_ints L df cols)) ! i) c =
           coerce_cell L (is_object (map (\<lambda>r. r c) (rows df))) ((rows df ! i) c)"
proof -
  let ?cs = "filter (\<lambda>c. c \<in> set (columns df)) cols"
  let ?out = "fst (fold (coerce_column L) ?cs (df, []))"
  have "distinct ?cs" "c \<in> set ?cs" using assms by auto
  from fold_coerce_at[OF this, of L "(df, [])"]
  have eq: "map (\<lambda>r. r c) (rows ?out) =
        map (coerce_cell L (is_object (map (\<lambda>r. r c) (rows df)))) (map (\<lambda>r. r c) (rows df))"
    by simp
  have len: "length (rows ?out) = length (rows df)"
    by (simp add: length_fold_coerce)
  have "(rows ?out ! i) c = map (\<lambda>r. r c) (rows ?out) ! i"
    using assms(4) len by simp
  also have "\<dots> = coerce_cell L (is_object (map (\<lambda>r. r c) (rows df))) ((rows df ! i) c)"
    unfolding eq using assms(4) by simp
  finally show ?thesis by (simp add: coerce_nullable_ints_def)
qed









section \<open>Deduplication by completeness\<close>


lemma keep_first_fresh: "x \<in> set (keep_first key seen xs) \<Longrightarrow> key x \<notin> set seen"
proof (induction xs arbitrary: seen)
  case Nil
  then show ?case by simp
next
  case (Cons a xs)
  show ?case
  proof (cases "key a \<in> set seen")
    case True
    with Cons show ?thesis by simp
  next
    case False
    with Cons.prems have "x = a \<or> x \<in> set (keep_first key (key a # seen) xs)" by simp
    then show ?thesis
    proof
      assume "x = a"
      with False show ?thesis by simp
    next
      assume "x \<in> set (keep_first key (key a # seen) xs)"
      from Cons.IH[OF this] show ?thesis by simp
    qed
  qed
qed

lemma keep_first_distinct: "distinct (map key (keep_first key seen xs))"
proof (induction xs arbitrary: seen)
  case Nil
  show ?case by simp
next
  case (Cons a xs)
  show ?case
  proof (cases "key a \<in> set seen")
    case True
    then show ?thesis using Cons.IH by simp
  next
    case False
    have "key a \<notin> key ` set (keep_first key (key a # seen) xs)"
    proof
      assume "key a \<in> key ` set (keep_first key (key a # seen) xs)"
      then obtain y where "y \<in> set (keep_first key (key a # seen) xs)" "key y = key a" by auto
      with keep_first_fresh[of y key "key a # seen" xs] show False by simp
    qed
    with False show ?thesis using Cons.IH by simp
  qed
qed




lemma map2_setitem_map:
  "map2 (\<lambda>r v. r(c := v)) rs (map f rs) = map (\<lambda>r. r(c := f r)) rs"
  by (induction rs) auto

lemma filter_add_label: "filter (\<lambda>c. c \<noteq> l) (add_label l cs) = filter (\<lambda>c. c \<noteq> l) cs"
  by (simp add: add_label_def)

lemma drop_duplicates_eq:
  "set ks \<subseteq> set (columns df) \<Longrightarrow>
   drop_duplicates df ks = Inr (df\<lparr> rows := keep_first (cells ks) [] (rows df) \<rparr>)"
proof -
  assume "set ks \<subseteq> set (columns df)"
  then have "filter (\<lambda>c. c \<notin> set (columns df)) ks = []"
    by (auto simp: filter_empty_conv)
  then show ?thesis by (simp add: drop_duplicates_def)
qed

lemma drop_duplicates_missing:
  "\<not> set ks \<subseteq> set (columns df) \<Longrightarrow> \<exists>c. drop_duplicates df ks = Inl (KeyError c)"
proof -
  assume "\<not> set ks \<subseteq> set (columns df)"
  then have "filter (\<lambda>c. c \<notin> set (columns df)) ks \<noteq> []"
    by (auto simp: filter_empty_conv)
  then show ?thesis by (cases "filter (\<lambda>c. c \<notin> set (columns df)) ks") (auto simp: drop_duplicates_def)
qed

lemma dedupe_rows_eq:
  assumes "set key_labels \<subseteq> set (columns df)"
  shows "dedupe_rows L df = Inr (deduped L df)"
proof -
  let ?df1 = "setitem df ''_nnz'' (map (\<lambda>r. Num (notna_sum df r)) (rows df))"
  let ?df2 = "sort_values_desc L ''_nnz'' ?df1"
  have r1: "rows ?df1 = counted df"
    by (simp add: setitem_def counted_def map2_setitem_map)
  have c1: "columns ?df1 = add_label ''_nnz'' (columns df)"
    by (simp add: setitem_def)
  have cnt: "map (\<lambda>r. count_of (r ''_nnz'')) (counted df) = map (notna_sum df) (rows df)"
    by (simp add: counted_def comp_def)
  have r2: "rows ?df2 = map (\<lambda>i. counted df ! i) (order_of L df)"
    by (simp add: sort_values_desc_def r1 cnt order_of_def)
  have c2: "columns ?df2 = add_label ''_nnz'' (columns df)"
    by (simp add: sort_values_desc_def c1)
  have "set key_labels \<subseteq> set (columns ?df2)"
    using assms unfolding c2 by auto
  from drop_duplicates_eq[OF this]
  have "dedupe_rows L df =
          Inr (drop (?df2\<lparr> rows := keep_first (cells key_labels) [] (rows ?df2) \<rparr>) [''_nnz''])"
    by (simp add: dedupe_rows_def Let_def)
  also have "drop (?df2\<lparr> rows := keep_first (cells key_labels) [] (rows ?df2) \<rparr>) [''_nnz''] =
             deduped L df"
    unfolding r2 by (simp add: drop_def deduped_def c2 filter_add_label)
  finally show ?thesis .
qed

lemma dedupe_rows_Inr:
  "dedupe_rows L df = Inr out \<Longrightarrow> set key_labels \<subseteq> set (columns df) \<and> out = deduped L df"
proof -
  assume a: "dedupe_rows L df = Inr out"
  have k: "set key_labels \<subseteq> set (columns df)"
  proof (rule ccontr)
    assume n: "\<not> set key_labels \<subseteq> set (columns df)"
    let ?df2 = "sort_values_desc L ''_nnz'' (setitem df ''_nnz'' (map (\<lambda>r. Num (notna_sum df r)) (rows df)))"
    have "columns ?df2 = add_label ''_nnz'' (columns df)"
      by (simp add: sort_values_desc_def setitem_def)
    with n have "\<not> set key_labels \<subseteq> set (columns ?df2)"
      by (auto simp: key_labels_def)
    from drop_duplicates_missing[OF this] obtain c where
      "drop_duplicates ?df2 key_labels = Inl (KeyError c)" ..
    then have "dedupe_rows L df = Inl (KeyError c)"
      by (simp add: dedupe_rows_def Let_def)
    with a show False by simp
  qed
  with a dedupe_rows_eq[OF k, of L] show ?thesis by simp
qed









text \<open>
  Claim C3.  The rows \<^verbatim>\<open>dedupe_rows\<close> returns have pairwise different
  (player, team, league, season) keys, whatever order the sort produced.
\<close>

theorem dedupe_rows_unique_key:
  assumes "dedupe_rows L df = Inr out"
  shows "distinct (map (cells key_labels) (rows out))"
proof -
  from dedupe_rows_Inr[OF assms] have "out = deduped L df" ..
  then show ?thesis
    by (simp add: deduped_def keep_first_distinct)
qed

theorem dedupe_rows_unique_key_witness:
  "dedupe_rows L0 ex_dups = Inr (deduped L0 ex_dups) \<and>
   distinct (map (cells key_labels) (rows (deduped L0 ex_dups))) \<and>
   length (rows ex_dups) = 4 \<and> length (rows (deduped L0 ex_dups)) = 2"
proof -
  have k: "set key_labels \<subseteq> set (columns ex_dups)"
    by (simp add: key_labels_def ex_dups_def)
  have h: "dedupe_rows L0 ex_dups = Inr (deduped L0 ex_dups)"
    using k by (rule dedupe_rows_eq)
  have n: "length (rows ex_dups) = 4" "length (rows (deduped L0 ex_dups)) = 2"
    by code_simp+
  show ?thesis
    using h n dedupe_rows_unique_key[OF h] by blast
qed




section \<open>Steps 2 to 4 as one function\<close>

lemma fold_map_column_columns [simp]: "columns (fold (map_column f) cs df) = columns df"
  by (induction cs arbitrary: df) simp_all

lemma fold_map_column_length [simp]: "length (rows (fold (map_column f) cs df)) = length (rows df)"
  by (induction cs arbitrary: df) simp_all

lemma fold_map_column_other:
  "c \<notin> set cs \<Longrightarrow>
   map (\<lambda>r. r c) (rows (fold (map_column f) cs df)) = map (\<lambda>r. r c) (rows df)"
proof (induction cs arbitrary: df)
  case Nil
  show ?case by simp
next
  case (Cons a cs)
  then have "map (\<lambda>r. r c) (rows (fold (map_column f) cs (map_column f a df))) =
             map (\<lambda>r. r c) (rows (map_column f a df))"
    by simp
  also have "\<dots> = map (\<lambda>r. r c) (rows df)"
    using Cons.prems by (simp add: comp_def)
  finally show ?case by simp
qed

lemma fold_coerce_columns [simp]:
  "columns (fst (fold (coerce_column L) cs st)) = columns (fst st)"
  by (induction cs arbitrary: st) (simp_all add: coerce_column_fst)

lemma column_nth: "i < length rs \<Longrightarrow> (rs ! i) c = map (\<lambda>r. r c) rs ! i"
  by simp

lemma clean_strings_simps [simp]:
  "columns (clean_strings L df cs) = columns df"
  "length (rows (clean_strings L df cs)) = length (rows df)"
  by (simp_all add: clean_strings_def)

lemma coerce_floats_simps [simp]:
  "columns (coerce_floats L df cs) = columns df"
  "length (rows (coerce_floats L df cs)) = length (rows df)"
  by (simp_all add: coerce_floats_def)

lemma coerce_nullable_ints_simps [simp]:
  "columns (fst (coerce_nullable_ints L df cs)) = columns df"
  "length (rows (fst (coerce_nullable_ints L df cs))) = length (rows df)"
  by (simp_all add: coerce_nullable_ints_def length_fold_coerce)

lemma clean_strings_other:
  "c \<notin> set cs \<Longrightarrow> map (\<lambda>r. r c) (rows (clean_strings L df cs)) = map (\<lambda>r. r c) (rows df)"
  unfolding clean_strings_def by (rule fold_map_column_other) simp

lemma coerce_floats_other:
  "c \<notin> set cs \<Longrightarrow> map (\<lambda>r. r c) (rows (coerce_floats L df cs)) = map (\<lambda>r. r c) (rows df)"
  unfolding coerce_floats_def by (rule fold_map_column_other) simp

lemma drop_redundant_simps [simp]:
  "rows (drop_redundant_source_cols df) = rows df"
  by (simp add: drop_redundant_source_cols_def drop_def Let_def)

lemma filter_drop_present:
  "filter (\<lambda>c. c \<notin> set (filter (\<lambda>c. c \<in> set cs) ds)) cs = filter (\<lambda>c. c \<notin> set ds) cs"
  by (rule filter_cong) auto

lemma columns_drop: "columns (drop df cs) = filter (\<lambda>c. c \<notin> set cs) (columns df)"
  by (simp add: drop_def)

lemma drop_redundant_columns:
  "columns (drop_redundant_source_cols df) = filter (\<lambda>c. c \<notin> set variant_columns) (columns df)"
  unfolding drop_redundant_source_cols_def Let_def variant_columns_def
  by (simp only: columns_drop filter_drop_present)

lemma prepare_eq:
  "prepare L df0 =
     (if set variant_columns \<subseteq> set (columns df0) then Inr (prepared L df0) else Inl AttributeError)"
proof (cases "set variant_columns \<subseteq> set (columns df0)")
  case True
  then have "build_canonical df0 =
      Inr \<lparr> columns = canonical_columns (columns df0), rows = map canonical_row (rows df0) \<rparr>"
    by (simp only: build_canonical_eq if_True)
  then show ?thesis
    using True by (simp only: prepare_def bind_simps prepared_def Let_def if_True)
next
  case False
  then have "build_canonical df0 = Inl AttributeError"
    by (simp only: build_canonical_eq if_False)
  then show ?thesis
    using False by (simp only: prepare_def bind_simps if_False)
qed

lemma prepared_length [simp]: "length (rows (fst (prepared L df0))) = length (rows df0)"
  by (simp add: prepared_def Let_def)

lemma prepared_columns:
  "columns (fst (prepared L df0)) =
     filter (\<lambda>c. c \<notin> set variant_columns) (canonical_columns (columns df0))"
  by (simp add: prepared_def Let_def drop_redundant_columns)

lemma age_kept: "''age'' \<in> set (canonical_columns cs)" "''age'' \<notin> set variant_columns"
  "''age'' \<notin> set canon_str" "''age'' \<in> set int_cols" "''age'' \<notin> set float_cols"
  by (simp_all add: canonical_columns_def variant_columns_def canon_str_def int_cols_def float_cols_def)

lemma prepared_age:
  assumes "i < length (rows df0)"
  shows "(rows (fst (prepared L df0)) ! i) ''age'' =
           coerce_cell L (is_object (map (\<lambda>r. canonical_row r ''age'') (rows df0)))
             (canonical_row (rows df0 ! i) ''age'')"
proof -
  define d0 where "d0 = \<lparr> columns = canonical_columns (columns df0), rows = map canonical_row (rows df0) \<rparr>"
  define d1 where "d1 = drop_redundant_source_cols d0"
  define d2 where "d2 = clean_strings L d1 canon_str"
  define d3 where "d3 = fst (coerce_nullable_ints L d2 int_cols)"
  define d4 where "d4 = coerce_floats L d3 float_cols"
  have p: "fst (prepared L df0) = d4"
    by (simp only: prepared_def Let_def fst_conv d0_def d1_def d2_def d3_def d4_def)
  have r1: "rows d1 = map canonical_row (rows df0)"
    by (simp add: d1_def d0_def)
  have c1: "''age'' \<in> set (columns d1)"
    unfolding d1_def drop_redundant_columns using age_kept(1)[of "columns df0"] age_kept(2)
    by (simp add: d0_def)
  have c2: "map (\<lambda>r. r ''age'') (rows d2) = map (\<lambda>r. canonical_row r ''age'') (rows df0)"
    unfolding d2_def using clean_strings_other[OF age_kept(3), of L d1] by (simp add: r1 comp_def)
  have in2: "''age'' \<in> set (columns d2)"
    using c1 by (simp add: d2_def)
  have len2: "i < length (rows d2)" using assms by (simp add: d2_def r1)
  have a2: "(rows d2 ! i) ''age'' = canonical_row (rows df0 ! i) ''age''"
    using assms column_nth[OF len2, of "''age''"] unfolding c2 by simp
  have "(rows d3 ! i) ''age'' =
          coerce_cell L (is_object (map (\<lambda>r. r ''age'') (rows d2))) ((rows d2 ! i) ''age'')"
    unfolding d3_def by (rule coerce_nullable_ints_cell[OF distinct_int_cols age_kept(4) in2 len2])
  then have a3: "(rows d3 ! i) ''age'' =
          coerce_cell L (is_object (map (\<lambda>r. canonical_row r ''age'') (rows df0)))
             (canonical_row (rows df0 ! i) ''age'')"
    unfolding c2 a2 .
  have len3: "i < length (rows d3)" using len2 by (simp add: d3_def)
  have len4: "i < length (rows d4)" using len3 by (simp add: d4_def)
  have "map (\<lambda>r. r ''age'') (rows d4) = map (\<lambda>r. r ''age'') (rows d3)"
    unfolding d4_def by (rule coerce_floats_other[OF age_kept(5)])
  then have "(rows d4 ! i) ''age'' = (rows d3 ! i) ''age''"
    using column_nth[OF len3, of "''age''"] column_nth[OF len4, of "''age''"] by simp
  with a3 show ?thesis
    unfolding p by simp
qed

end
